theory Spec2Isabelle
  imports Complex_Main
begin

section \<open>Python exceptions\<close>

text \<open>
  The exception classes the two modules raise, catch or test for.  The framework tells three
  groups apart: instances of \<^verbatim>\<open>Exception\<close> (what \<^verbatim>\<open>except Exception\<close> catches), the
  classes \<^verbatim>\<open>KeyboardInterrupt\<close> and \<^verbatim>\<open>SystemExit\<close> (tested in the trading loop), and the
  rest of \<^verbatim>\<open>BaseException\<close>.  \<open>UserException k\<close> is a class written by the user of the
  framework that derives from \<^verbatim>\<open>Exception\<close>; \<open>k\<close> says whether it derives from
  \<^verbatim>\<open>KeyboardInterrupt\<close> or \<^verbatim>\<open>SystemExit\<close> as well.  \<^verbatim>\<open>ConfigurationError\<close> comes from the
  package's \<^verbatim>\<open>exceptions\<close> module, which is not among the sources; it is imported next to
  \<^verbatim>\<open>XBotV5Exception\<close> and taken to be an \<^verbatim>\<open>Exception\<close>.
\<close>

datatype exc_class =
    ConfigurationError | ValueError | KeyError | TypeError | RuntimeError | ZeroDivisionError
  | KeyboardInterrupt | SystemExit | CancelledError
  | UserException bool

text \<open>An exception object: its class and the text \<^verbatim>\<open>str(e)\<close> gives.\<close>

datatype exn = Exn exc_class string

fun exc_class_of :: "exn \<Rightarrow> exc_class" where
  "exc_class_of (Exn c m) = c"

fun exc_str :: "exn \<Rightarrow> string" where
  "exc_str (Exn c m) = m"

fun class_is_Exception :: "exc_class \<Rightarrow> bool" where
  "class_is_Exception KeyboardInterrupt = False"
| "class_is_Exception SystemExit = False"
| "class_is_Exception CancelledError = False"
| "class_is_Exception c = True"


text \<open>\<^verbatim>\<open>isinstance(e, Exception)\<close> and \<^verbatim>\<open>isinstance(e, (KeyboardInterrupt, SystemExit))\<close>.\<close>

definition isinstance_Exception :: "exn \<Rightarrow> bool" where
  "isinstance_Exception e = class_is_Exception (exc_class_of e)"


section \<open>Timestamps\<close>

text \<open>
  A naive \<^verbatim>\<open>datetime\<close> (what \<^verbatim>\<open>datetime.utcnow()\<close> returns), with the ranges the Python type
  enforces on its fields.
\<close>

record datetime =
  year :: nat
  month :: nat
  day :: nat
  hour :: nat
  minute :: nat
  second :: nat
  microsecond :: nat

definition is_leap :: "nat \<Rightarrow> bool" where
  "is_leap y = (y mod 4 = 0 \<and> (y mod 100 \<noteq> 0 \<or> y mod 400 = 0))"

definition days_in_month :: "nat \<Rightarrow> nat \<Rightarrow> nat" where
  "days_in_month y m =
     (if m = 2 then (if is_leap y then 29 else 28)
      else if m = 4 \<or> m = 6 \<or> m = 9 \<or> m = 11 then 30 else 31)"

definition valid_datetime :: "datetime \<Rightarrow> bool" where
  "valid_datetime t =
     (1 \<le> year t \<and> year t \<le> 9999 \<and> 1 \<le> month t \<and> month t \<le> 12 \<and>
      1 \<le> day t \<and> day t \<le> days_in_month (year t) (month t) \<and>
      hour t < 24 \<and> minute t < 60 \<and> second t < 60 \<and> microsecond t < 1000000)"

definition digit_char :: "nat \<Rightarrow> char" where
  "digit_char d = ''0123456789'' ! d"

definition digit_value :: "char \<Rightarrow> nat option" where
  "digit_value c = map_of (zip ''0123456789'' [0..<10]) c"

text \<open>\<open>pad w n\<close>: the last \<open>w\<close> decimal digits of \<open>n\<close>, as \<^verbatim>\<open>"%0wd"\<close> writes them.\<close>

fun pad :: "nat \<Rightarrow> nat \<Rightarrow> string" where
  "pad 0 n = []"
| "pad (Suc w) n = pad w (n div 10) @ [digit_char (n mod 10)]"

fun parse_digits_from :: "nat \<Rightarrow> string \<Rightarrow> nat option" where
  "parse_digits_from a [] = Some a"
| "parse_digits_from a (c # cs) =
     (case digit_value c of None \<Rightarrow> None | Some d \<Rightarrow> parse_digits_from (10 * a + d) cs)"

definition parse_digits :: "string \<Rightarrow> nat option" where
  "parse_digits s = parse_digits_from 0 s"

text \<open>
  \<^verbatim>\<open>datetime.isoformat()\<close> of a naive datetime: \<^verbatim>\<open>YYYY-MM-DDTHH:MM:SS\<close>, followed by
  \<^verbatim>\<open>.ffffff\<close> when the microsecond is not zero.
\<close>

definition isoformat :: "datetime \<Rightarrow> string" where
  "isoformat t =
     pad 4 (year t) @ ''-'' @ pad 2 (month t) @ ''-'' @ pad 2 (day t) @ ''T'' @
     pad 2 (hour t) @ '':'' @ pad 2 (minute t) @ '':'' @ pad 2 (second t) @
     (if microsecond t = 0 then [] else ''.'' @ pad 6 (microsecond t))"

text \<open>
  \<^verbatim>\<open>datetime.fromisoformat\<close>, on the two shapes \<open>isoformat\<close> writes; a field out of range and
  any other text is a \<^verbatim>\<open>ValueError\<close> here (later Python versions read more shapes, none of
  which \<open>to_dict\<close> produces).
\<close>

definition fromisoformat :: "string \<Rightarrow> exn + datetime" where
  "fromisoformat s =
     (if (length s = 19 \<or> (length s = 26 \<and> s ! 19 = CHR ''.'')) \<and>
         s ! 4 = CHR ''-'' \<and> s ! 7 = CHR ''-'' \<and> s ! 10 = CHR ''T'' \<and>
         s ! 13 = CHR '':'' \<and> s ! 16 = CHR '':''
      then
        (case (parse_digits (take 4 s), parse_digits (take 2 (drop 5 s)),
               parse_digits (take 2 (drop 8 s)), parse_digits (take 2 (drop 11 s)),
               parse_digits (take 2 (drop 14 s)), parse_digits (take 2 (drop 17 s)),
               (if length s = 19 then Some 0 else parse_digits (drop 20 s))) of
           (Some y, Some mo, Some d, Some h, Some mi, Some se, Some us) \<Rightarrow>
             (let t = \<lparr>year = y, month = mo, day = d, hour = h, minute = mi, second = se,
                       microsecond = us\<rparr>
              in if valid_datetime t then Inr t
                 else Inl (Exn ValueError ''field out of range''))
         | _ \<Rightarrow> Inl (Exn ValueError ''Invalid isoformat string''))
      else Inl (Exn ValueError ''Invalid isoformat string''))"

section \<open>Signals (core/signal.py)\<close>

datatype SignalType = BUY | SELL | HOLD | CLOSE | STOP_LOSS | TAKE_PROFIT

text \<open>The \<^verbatim>\<open>.value\<close> of each member.\<close>

fun SignalType_value :: "SignalType \<Rightarrow> string" where
  "SignalType_value BUY = ''buy''"
| "SignalType_value SELL = ''sell''"
| "SignalType_value HOLD = ''hold''"
| "SignalType_value CLOSE = ''close''"
| "SignalType_value STOP_LOSS = ''stop_loss''"
| "SignalType_value TAKE_PROFIT = ''take_profit''"

text \<open>
  The values a \<^verbatim>\<open>Dict[str, Any]\<close> of this module holds: \<^verbatim>\<open>None\<close>, text, numbers (floats are
  taken as reals), nested dictionaries (the metadata), and the two objects \<open>from_dict\<close>
  itself stores into its copy, an enum member and a datetime.  A dictionary is a list of
  entries in insertion order.
\<close>

datatype pyval =
    PNone
  | PStr string
  | PFloat real
  | PDict "(string \<times> pyval) list"
  | PEnum SignalType
  | PTime datetime

type_synonym pydict = "(string \<times> pyval) list"

fun truthy :: "pyval \<Rightarrow> bool" where
  "truthy PNone = False"
| "truthy (PStr s) = (s \<noteq> [])"
| "truthy (PFloat x) = (x \<noteq> 0)"
| "truthy (PDict d) = (d \<noteq> [])"
| "truthy (PEnum t) = True"
| "truthy (PTime t) = True"

text \<open>\<^verbatim>\<open>d[k] = v\<close>: an existing key keeps its place, a new one goes last.\<close>

fun dict_set :: "pydict \<Rightarrow> string \<Rightarrow> pyval \<Rightarrow> pydict" where
  "dict_set [] k v = [(k, v)]"
| "dict_set ((k', v') # d) k v = (if k' = k then (k, v) # d else (k', v') # dict_set d k v)"

record Signal =
  type :: SignalType
  symbol :: string
  confidence :: real
  price :: "real option"
  quantity :: "real option"
  stop_loss :: "real option"
  take_profit :: "real option"
  metadata :: pydict
  timestamp :: datetime
  source :: string

text \<open>
  The dataclass constructor followed by \<^verbatim>\<open>__post_init__\<close>.  \<open>now\<close> is what
  \<^verbatim>\<open>datetime.utcnow()\<close> returns at the call; \<open>None\<close> for the metadata or the timestamp is the
  dataclass default.
\<close>

definition Signal_init ::
  "datetime \<Rightarrow> SignalType \<Rightarrow> string \<Rightarrow> real \<Rightarrow> real option \<Rightarrow> real option \<Rightarrow> real option \<Rightarrow>
   real option \<Rightarrow> pydict option \<Rightarrow> datetime option \<Rightarrow> string \<Rightarrow> exn + Signal" where
  "Signal_init now ty sy conf pr qty sl tp md ts src =
     (let md' = (case md of None \<Rightarrow> [] | Some m \<Rightarrow> m);
          ts' = (case ts of None \<Rightarrow> now | Some t \<Rightarrow> t)
      in if \<not> (0 \<le> conf \<and> conf \<le> 1)
         then Inl (Exn ValueError ''Confidence must be between 0.0 and 1.0'')
         else Inr \<lparr>type = ty, symbol = sy, confidence = conf, price = pr, quantity = qty,
                   stop_loss = sl, take_profit = tp, metadata = md', timestamp = ts',
                   source = src\<rparr>)"

definition is_actionable :: "Signal \<Rightarrow> bool" where
  "is_actionable s = (type s \<noteq> HOLD)"

definition is_entry_signal :: "Signal \<Rightarrow> bool" where
  "is_entry_signal s = (type s = BUY)"

definition is_exit_signal :: "Signal \<Rightarrow> bool" where
  "is_exit_signal s = (type s \<in> {SELL, CLOSE, STOP_LOSS, TAKE_PROFIT})"



text \<open>
  The call \<^verbatim>\<open>SignalType(v)\<close>: an enum member is returned as it is, a value is looked up
  among the members' values, anything else is a \<^verbatim>\<open>ValueError\<close>.
\<close>

definition SignalType_call :: "pyval \<Rightarrow> exn + SignalType" where
  "SignalType_call v =
     (case v of
        PEnum t \<Rightarrow> Inr t
      | PStr s \<Rightarrow>
          (if s = ''buy'' then Inr BUY
           else if s = ''sell'' then Inr SELL
           else if s = ''hold'' then Inr HOLD
           else if s = ''close'' then Inr CLOSE
           else if s = ''stop_loss'' then Inr STOP_LOSS
           else if s = ''take_profit'' then Inr TAKE_PROFIT
           else Inl (Exn ValueError (s @ '' is not a valid SignalType'')))
      | _ \<Rightarrow> Inl (Exn ValueError ''not a valid SignalType''))"

text \<open>
  What \<open>from_dict\<close> can end in: an exception, a signal, or (\<open>Unchecked\<close>) an object whose
  fields do not have the annotated types.  A dataclass does not check its annotations, so
  Python builds that object; the typed record \<open>Signal\<close> has no value for it.
\<close>

datatype decoded = Raised exn | Built Signal | Unchecked

definition Signal_fields :: "string list" where
  "Signal_fields = [''type'', ''symbol'', ''confidence'', ''price'', ''quantity'', ''stop_loss'',
     ''take_profit'', ''metadata'', ''timestamp'', ''source'']"

text \<open>The typed readings of a keyword argument; the outer \<open>None\<close> is "not of this type".\<close>

definition kw_enum :: "pyval option \<Rightarrow> SignalType option" where
  "kw_enum v = (case v of Some (PEnum t) \<Rightarrow> Some t | _ \<Rightarrow> None)"

definition kw_str :: "string \<Rightarrow> pyval option \<Rightarrow> string option" where
  "kw_str dflt v = (case v of None \<Rightarrow> Some dflt | Some (PStr s) \<Rightarrow> Some s | _ \<Rightarrow> None)"

definition kw_opt_float :: "pyval option \<Rightarrow> real option option" where
  "kw_opt_float v =
     (case v of None \<Rightarrow> Some None | Some PNone \<Rightarrow> Some None | Some (PFloat x) \<Rightarrow> Some (Some x)
      | _ \<Rightarrow> None)"

definition kw_opt_dict :: "pyval option \<Rightarrow> pydict option option" where
  "kw_opt_dict v =
     (case v of None \<Rightarrow> Some None | Some PNone \<Rightarrow> Some None | Some (PDict d) \<Rightarrow> Some (Some d)
      | _ \<Rightarrow> None)"

definition kw_opt_time :: "pyval option \<Rightarrow> datetime option option" where
  "kw_opt_time v =
     (case v of None \<Rightarrow> Some None | Some PNone \<Rightarrow> Some None | Some (PTime t) \<Rightarrow> Some (Some t)
      | _ \<Rightarrow> None)"

text \<open>
  The call \<^verbatim>\<open>cls(**kw)\<close>.  Binding the arguments fails with a \<^verbatim>\<open>TypeError\<close> on a key that is
  no field and on a missing \<^verbatim>\<open>type\<close> or \<^verbatim>\<open>symbol\<close>.  \<^verbatim>\<open>__post_init__\<close> then compares the
  confidence with \<^verbatim>\<open>0.0\<close> and \<^verbatim>\<open>1.0\<close>: a \<^verbatim>\<open>TypeError\<close> when it is no number, a
  \<^verbatim>\<open>ValueError\<close> when it is out of range.
\<close>

definition Signal_kwargs :: "datetime \<Rightarrow> pydict \<Rightarrow> decoded" where
  "Signal_kwargs now kw =
     (if \<exists>k \<in> set (map fst kw). k \<notin> set Signal_fields
      then Raised (Exn TypeError ''unexpected keyword argument'')
      else if map_of kw ''type'' = None \<or> map_of kw ''symbol'' = None
      then Raised (Exn TypeError ''missing required positional argument'')
      else
        (case (case map_of kw ''confidence'' of None \<Rightarrow> PFloat 1 | Some v \<Rightarrow> v) of
           PFloat conf \<Rightarrow>
             (case (kw_enum (map_of kw ''type''), kw_str [] (map_of kw ''symbol''),
                    kw_opt_float (map_of kw ''price''), kw_opt_float (map_of kw ''quantity''),
                    kw_opt_float (map_of kw ''stop_loss''),
                    kw_opt_float (map_of kw ''take_profit''),
                    kw_opt_dict (map_of kw ''metadata''), kw_opt_time (map_of kw ''timestamp''),
                    kw_str ''unknown'' (map_of kw ''source'')) of
                (Some ty, Some sy, Some pr, Some qty, Some sl, Some tp, Some md, Some ts,
                 Some src) \<Rightarrow>
                  (case Signal_init now ty sy conf pr qty sl tp md ts src of
                     Inl e \<Rightarrow> Raised e
                   | Inr s \<Rightarrow> Built s)
              | _ \<Rightarrow>
                  (if \<not> (0 \<le> conf \<and> conf \<le> 1)
                   then Raised (Exn ValueError ''Confidence must be between 0.0 and 1.0'')
                   else Unchecked))
         | _ \<Rightarrow> Raised (Exn TypeError ''not supported between instances'')))"

text \<open>
  \<open>from_dict\<close>: \<^verbatim>\<open>data["type"]\<close> raises \<^verbatim>\<open>KeyError\<close> on a missing key;
  \<^verbatim>\<open>datetime.fromisoformat\<close> raises \<^verbatim>\<open>TypeError\<close> on an argument that is no text.
\<close>

definition from_dict :: "datetime \<Rightarrow> pydict \<Rightarrow> decoded" where
  "from_dict now data =
     (case map_of data ''type'' of
        None \<Rightarrow> Raised (Exn KeyError ''type'')
      | Some tv \<Rightarrow>
          (case SignalType_call tv of
             Inl e \<Rightarrow> Raised e
           | Inr ty \<Rightarrow>
               (let signal_data = dict_set data ''type'' (PEnum ty)
                in case map_of data ''timestamp'' of
                     None \<Rightarrow> Signal_kwargs now signal_data
                   | Some v \<Rightarrow>
                       (if truthy v then
                          (case v of
                             PStr s \<Rightarrow>
                               (case fromisoformat s of
                                  Inl e \<Rightarrow> Raised e
                                | Inr t \<Rightarrow>
                                    Signal_kwargs now (dict_set signal_data ''timestamp'' (PTime t)))
                           | _ \<Rightarrow> Raised (Exn TypeError ''fromisoformat: argument must be str''))
                        else Signal_kwargs now signal_data))))"

section \<open>The bot (core/bot.py)\<close>

text \<open>
  Modelled from the spec: \<^verbatim>\<open>Position\<close> and \<^verbatim>\<open>Order\<close>, whose modules are not among the
  sources, are opaque records; the bot reads a position's \<^verbatim>\<open>symbol\<close> and \<^verbatim>\<open>pnl\<close> and
  prints it (\<open>pos_text\<close> is \<^verbatim>\<open>str(position)\<close>), and passes an order on unread.  Such
  objects are true in a condition.
\<close>

record position =
  pos_symbol :: string
  pnl :: real
  pos_text :: string

datatype order = Order string

text \<open>
  The attributes of a \<^verbatim>\<open>Bot\<close>; \<open>running\<close> and \<open>initialized\<close> are the private \<^verbatim>\<open>_running\<close> and
  \<^verbatim>\<open>_initialized\<close>.  The counters are Python integers, the cumulated profit a float, taken
  as a real.
\<close>

record bot =
  name :: string
  version :: string
  description :: string
  author :: string
  pairs :: "string list"
  timeframe :: string
  running :: bool
  initialized :: bool
  start_time :: "datetime option"
  positions :: "string \<rightharpoonup> position"
  orders :: "string \<rightharpoonup> order"
  total_trades :: int
  winning_trades :: int
  losing_trades :: int
  total_pnl :: real

text \<open>The state \<^verbatim>\<open>__init__\<close> leaves.\<close>

definition Bot_init :: bot where
  "Bot_init =
     \<lparr>name = ''Unnamed Bot'', version = ''1.0.0'',
      description = ''A trading bot built with xBotV5'', author = ''Unknown'',
      pairs = [], timeframe = ''1h'', running = False, initialized = False,
      start_time = None, positions = Map.empty, orders = Map.empty,
      total_trades = 0, winning_trades = 0, losing_trades = 0, total_pnl = 0\<rparr>"

text \<open>
  What the framework code itself does besides changing the bot: the hooks it invokes (with
  the exception the hook ended in, if any), the events it hands to the bus, the lines it
  logs.  These are kept in a trace next to the bot.
\<close>

datatype hook =
  Setup | On_start | On_stop | On_order_filled | On_error | Process_market_data | Sleep

datatype effect =
    Invoked hook "exn option"
  | Emitted string
  | Log_info string
  | Log_error string

record world =
  bot :: bot
  trace :: "effect list"

text \<open>The \<^verbatim>\<open>data\<close> dictionary of an event, by the keys the handlers read.\<close>

record event_data =
  order_entry :: "order option"
  position_entry :: "position option"
  error_entry :: "exn option"



text \<open>
  The code around the base class.  A hook is a method of the user's subclass: it takes the
  bot, returns it changed, and may end in an exception.  \<open>process_market_data\<close> is the
  method the loop calls (a subclass may override it) and \<open>sleep\<close> is what happens to the bot
  while the loop is suspended in \<^verbatim>\<open>asyncio.sleep(0.1)\<close> (another task may call \<open>stop\<close>, or
  cancel this one); both get the number of the iteration.  \<open>bus_emit\<close> is
  \<^verbatim>\<open>EventBus.emit\<close>, whose module is not among the sources: what the subscribed handlers do
  to the bot and whether an exception leaves the call.  \<open>utcnow\<close> is the clock.
\<close>

record env =
  setup_hook :: "bot \<Rightarrow> bot \<times> exn option"
  on_start :: "bot \<Rightarrow> bot \<times> exn option"
  on_stop :: "bot \<Rightarrow> bot \<times> exn option"
  on_order_filled :: "order \<Rightarrow> bot \<Rightarrow> bot \<times> exn option"
  on_error :: "exn \<Rightarrow> bot \<Rightarrow> bot \<times> exn option"
  process_market_data :: "nat \<Rightarrow> bot \<Rightarrow> bot \<times> exn option"
  sleep :: "nat \<Rightarrow> bot \<Rightarrow> bot \<times> exn option"
  bus_emit :: "string \<Rightarrow> event_data \<Rightarrow> bot \<Rightarrow> bot \<times> exn option"
  utcnow :: datetime

definition map_bot :: "(bot \<Rightarrow> bot) \<Rightarrow> world \<Rightarrow> world" where
  "map_bot f w = w\<lparr>bot := f (bot w)\<rparr>"

definition log_info :: "string \<Rightarrow> world \<Rightarrow> world" where
  "log_info m w = w\<lparr>trace := trace w @ [Log_info m]\<rparr>"

definition log_error :: "string \<Rightarrow> world \<Rightarrow> world" where
  "log_error m w = w\<lparr>trace := trace w @ [Log_error m]\<rparr>"

definition invoke :: "hook \<Rightarrow> (bot \<Rightarrow> bot \<times> exn option) \<Rightarrow> world \<Rightarrow> world \<times> exn option" where
  "invoke h f w =
     (case f (bot w) of (b', r) \<Rightarrow> (\<lparr>bot = b', trace = trace w @ [Invoked h r]\<rparr>, r))"


subsection \<open>The handlers of the four subscriptions\<close>

definition handle_order_filled :: "env \<Rightarrow> event_data \<Rightarrow> world \<Rightarrow> world \<times> exn option" where
  "handle_order_filled env d w =
     (case order_entry d of
        None \<Rightarrow> (w, None)
      | Some ord \<Rightarrow>
          (case invoke On_order_filled (on_order_filled env ord) w of
             (w1, Some e) \<Rightarrow> (w1, Some e)
           | (w1, None) \<Rightarrow> (map_bot (\<lambda>b. b\<lparr>total_trades := total_trades b + 1\<rparr>) w1, None)))"

definition handle_position_opened :: "event_data \<Rightarrow> world \<Rightarrow> world \<times> exn option" where
  "handle_position_opened d w =
     (case position_entry d of
        None \<Rightarrow> (w, None)
      | Some p \<Rightarrow>
          (log_info (''Position opened: '' @ pos_text p)
             (map_bot (\<lambda>b. b\<lparr>positions := (positions b)(pos_symbol p \<mapsto> p)\<rparr>) w), None))"

definition handle_position_closed :: "event_data \<Rightarrow> world \<Rightarrow> world \<times> exn option" where
  "handle_position_closed d w =
     (case position_entry d of
        None \<Rightarrow> (w, None)
      | Some p \<Rightarrow>
          (let w1 = (if pnl p > 0
                     then map_bot (\<lambda>b. b\<lparr>winning_trades := winning_trades b + 1\<rparr>) w
                     else map_bot (\<lambda>b. b\<lparr>losing_trades := losing_trades b + 1\<rparr>) w);
               w2 = map_bot (\<lambda>b. b\<lparr>total_pnl := total_pnl b + pnl p\<rparr>) w1;
               w3 = (if pos_symbol p \<in> dom (positions (bot w2))
                     then map_bot (\<lambda>b. b\<lparr>positions := (positions b)(pos_symbol p := None)\<rparr>) w2
                     else w2)
           in (log_info (''Position closed: '' @ pos_text p) w3, None)))"

definition handle_error :: "env \<Rightarrow> event_data \<Rightarrow> world \<Rightarrow> world \<times> exn option" where
  "handle_error env d w =
     (case error_entry d of
        None \<Rightarrow> (w, None)
      | Some e \<Rightarrow> invoke On_error (on_error env e) w)"

subsection \<open>Initialization\<close>

definition validate_config :: "bot \<Rightarrow> exn option" where
  "validate_config b =
     (if name b = [] then Some (Exn ConfigurationError ''Bot name is required'')
      else if pairs b = [] then Some (Exn ConfigurationError ''At least one trading pair is required'')
      else if timeframe b = [] then Some (Exn ConfigurationError ''Timeframe is required'')
      else None)"

text \<open>The body of the \<^verbatim>\<open>try\<close> in \<open>initialize\<close>.\<close>

definition initialize_try :: "env \<Rightarrow> world \<Rightarrow> world \<times> exn option" where
  "initialize_try env w =
     (case invoke Setup (setup_hook env) w of
        (w1, Some e) \<Rightarrow> (w1, Some e)
      | (w1, None) \<Rightarrow>
          (case validate_config (bot w1) of
             Some e \<Rightarrow> (w1, Some e)
           | None \<Rightarrow>
               (let w2 = map_bot (\<lambda>b. b\<lparr>initialized := True\<rparr>) w1
                in (log_info (''Bot '' @ name (bot w2) @ '' v'' @ version (bot w2) @ '' initialized'')
                      w2, None))))"

definition initialize :: "env \<Rightarrow> world \<Rightarrow> world \<times> exn option" where
  "initialize env w =
     (if initialized (bot w) then (w, None)
      else
        (case initialize_try env w of
           (w1, None) \<Rightarrow> (w1, None)
         | (w1, Some e) \<Rightarrow>
             (if isinstance_Exception e
              then (log_error (''Failed to initialize bot: '' @ exc_str e) w1,
                    Some (Exn ConfigurationError (''Bot initialization failed: '' @ exc_str e)))
              else (w1, Some e))))"

subsection \<open>The main loop\<close>

text \<open>\<^verbatim>\<open>_process_market_data\<close> as the base class has it: a placeholder that does nothing.\<close>

definition Bot_process_market_data :: "bot \<Rightarrow> bot \<times> exn option" where
  "Bot_process_market_data b = (b, None)"

definition stop :: "world \<Rightarrow> world \<times> exn option" where
  "stop w =
     (map_bot (\<lambda>b. b\<lparr>running := False\<rparr>) (log_info (''Stopping bot '' @ name (bot w)) w), None)"









subsection \<open>Statistics\<close>

text \<open>Python's \<^verbatim>\<open>/\<close> on integers.\<close>

definition truediv :: "int \<Rightarrow> int \<Rightarrow> exn + real" where
  "truediv a b =
     (if b = 0 then Inl (Exn ZeroDivisionError ''division by zero'')
      else Inr (real_of_int a / real_of_int b))"

definition win_rate :: "bot \<Rightarrow> exn + real" where
  "win_rate b =
     (let total = winning_trades b + losing_trades b
      in if total = 0 then Inr 0
         else (case truediv (winning_trades b) total of
                 Inl e \<Rightarrow> Inl e
               | Inr q \<Rightarrow> Inr (q * 100)))"

subsection \<open>Reading a trace\<close>

definition invocations :: "hook \<Rightarrow> effect list \<Rightarrow> nat" where
  "invocations h tr = length (filter (\<lambda>x. case x of Invoked h' r \<Rightarrow> h' = h | _ \<Rightarrow> False) tr)"






section \<open>Example inputs\<close>

definition t0 :: datetime where
  "t0 = \<lparr>year = 2024, month = 1, day = 2, hour = 3, minute = 4, second = 5, microsecond = 0\<rparr>"

definition idle :: "bot \<Rightarrow> bot \<times> exn option" where
  "idle b = (b, None)"

definition failing :: "exn \<Rightarrow> bot \<Rightarrow> bot \<times> exn option" where
  "failing e b = (b, Some e)"

definition example_setup :: "bot \<Rightarrow> bot \<times> exn option" where
  "example_setup b = (b\<lparr>name := ''X'', pairs := [''BTC/USDT''], timeframe := ''1h''\<rparr>, None)"

text \<open>
  A bot whose hooks do nothing, on a bus without subscribers that fail; during the delay
  of the second pass another task calls \<open>stop\<close>.
\<close>

definition example_env :: env where
  "example_env =
     \<lparr>setup_hook = example_setup, on_start = idle, on_stop = idle,
      on_order_filled = (\<lambda>ord. idle), on_error = (\<lambda>e. idle),
      process_market_data = (\<lambda>i. Bot_process_market_data),
      sleep = (\<lambda>i b. if i = 1 then (b\<lparr>running := False\<rparr>, None) else (b, None)),
      bus_emit = (\<lambda>n d. idle), utcnow = t0\<rparr>"

definition world0 :: world where
  "world0 = \<lparr>bot = Bot_init, trace = []\<rparr>"

definition example_signal :: Signal where
  "example_signal =
     \<lparr>type = BUY, symbol = ''BTC/USDT'', confidence = 85 / 100, price = Some 45000,
      quantity = None, stop_loss = Some 44000, take_profit = Some 46000,
      metadata = [(''rsi'', PFloat 28)], timestamp = t0, source = ''unknown''\<rparr>"

definition winner :: position where
  "winner = \<lparr>pos_symbol = ''BTC/USDT'', pnl = 50, pos_text = ''BTC/USDT +50''\<rparr>"

definition loser :: position where
  "loser = \<lparr>pos_symbol = ''ETH/USDT'', pnl = - 20, pos_text = ''ETH/USDT -20''\<rparr>"

definition closing :: "position \<Rightarrow> event_data" where
  "closing p = \<lparr>order_entry = None, position_entry = Some p, error_entry = None\<rparr>"





section \<open>Signals: construction, queries, decoding\<close>

text \<open>
  C9.  \<open>is_exit_signal\<close> is true exactly for the types SELL, CLOSE, STOP_LOSS and
  TAKE_PROFIT, and false exactly for BUY and HOLD; every type is in one of the two groups.
\<close>

theorem is_exit_signal_partition:
  "(is_exit_signal s \<longleftrightarrow> type s = SELL \<or> type s = CLOSE \<or> type s = STOP_LOSS \<or> type s = TAKE_PROFIT)
   \<and> (\<not> is_exit_signal s \<longleftrightarrow> type s = BUY \<or> type s = HOLD)"
  by (cases "type s") (simp_all add: is_exit_signal_def)

theorem is_exit_signal_partition_witness:
  "\<not> is_exit_signal example_signal \<and> is_exit_signal (example_signal\<lparr>type := STOP_LOSS\<rparr>)"
  using is_exit_signal_partition [of example_signal]
    is_exit_signal_partition [of "example_signal\<lparr>type := STOP_LOSS\<rparr>"]
  by (simp add: example_signal_def)

text \<open>
  C4.  Constructing a signal with a confidence below 0 or above 1 raises a
  \<^verbatim>\<open>ValueError\<close>; with a confidence from 0 to 1 the construction returns a signal, whatever
  the other arguments are.
\<close>

theorem confidence_validated:
  "(c < 0 \<or> 1 < c \<longrightarrow>
      (\<exists>m. Signal_init now ty sy c pr qty sl tp md ts src = Inl (Exn ValueError m)))
   \<and> (0 \<le> c \<and> c \<le> 1 \<longrightarrow> (\<exists>s. Signal_init now ty sy c pr qty sl tp md ts src = Inr s))"
  by (auto simp add: Signal_init_def Let_def)

theorem confidence_validated_witness:
  "(\<exists>m. Signal_init t0 BUY ''BTC/USDT'' (3 / 2) None None None None None None ''unknown'' =
        Inl (Exn ValueError m))
   \<and> (\<exists>s. Signal_init t0 BUY ''BTC/USDT'' (85 / 100) None None None None None None ''unknown'' =
        Inr s)"
  using confidence_validated [of "3 / 2" t0 BUY "''BTC/USDT''" None None None None None None "''unknown''"]
    confidence_validated [of "85 / 100" t0 BUY "''BTC/USDT''" None None None None None None "''unknown''"]
  by simp

section \<open>Statistics and the position handler\<close>

text \<open>
  C10.  \<open>win_rate\<close> never divides by zero: it returns 0 when the two counters add up to
  0 and the winning share times 100 otherwise, and the result lies between 0 and 100 when
  neither counter is negative.
\<close>

theorem win_rate_safe:
  "win_rate b =
     Inr (if winning_trades b + losing_trades b = 0 then 0
          else real_of_int (winning_trades b)
                 / real_of_int (winning_trades b + losing_trades b) * 100)
   \<and> (0 \<le> winning_trades b \<and> 0 \<le> losing_trades b \<longrightarrow>
        (\<exists>r. win_rate b = Inr r \<and> 0 \<le> r \<and> r \<le> 100))"
proof -
  let ?w = "winning_trades b" and ?t = "winning_trades b + losing_trades b"
  have eq: "win_rate b = Inr (if ?t = 0 then 0 else real_of_int ?w / real_of_int ?t * 100)"
    by (simp add: win_rate_def truediv_def Let_def)
  have scale: "0 \<le> q * 100 \<and> q * 100 \<le> 100" if "0 \<le> q" "q \<le> 1" for q :: real
    using that by simp
  have rng: "0 \<le> real_of_int ?w / real_of_int ?t * 100 \<and> real_of_int ?w / real_of_int ?t * 100 \<le> 100"
    if "0 \<le> ?w" "0 \<le> losing_trades b" "?t \<noteq> 0"
  proof -
    have pos: "0 < real_of_int ?t" using that by linarith
    have "real_of_int ?w \<le> real_of_int ?t" using that by linarith
    then have "real_of_int ?w / real_of_int ?t \<le> 1" using pos by (simp add: divide_le_eq)
    moreover have "0 \<le> real_of_int ?w / real_of_int ?t" using that pos by simp
    ultimately show ?thesis by (intro scale)
  qed
  show ?thesis using eq rng by auto
qed

theorem win_rate_safe_witness:
  "win_rate Bot_init = Inr 0
   \<and> win_rate (Bot_init\<lparr>winning_trades := 3, losing_trades := 1\<rparr>) = Inr 75"
  using win_rate_safe [of Bot_init]
    win_rate_safe [of "Bot_init\<lparr>winning_trades := 3, losing_trades := 1\<rparr>"]
  by (simp add: Bot_init_def)

text \<open>
  C6.  Handling a \<^verbatim>\<open>position_closed\<close> event that carries a position adds 1 to
  \<open>winning_trades\<close> when the position's pnl is above 0 and 1 to \<open>losing_trades\<close> otherwise,
  adds the pnl to \<open>total_pnl\<close>, and removes the position's symbol from \<open>positions\<close>; the
  handler raises nothing and leaves \<open>total_trades\<close> alone.  A pnl of 50 counts as a win and
  adds 50, a pnl of -20 counts as a loss and adds -20.
\<close>

theorem position_closed_statistics:
  assumes "position_entry d = Some p"
  shows "snd (handle_position_closed d w) = None
     \<and> winning_trades (bot (fst (handle_position_closed d w))) =
         winning_trades (bot w) + (if pnl p > 0 then 1 else 0)
     \<and> losing_trades (bot (fst (handle_position_closed d w))) =
         losing_trades (bot w) + (if pnl p > 0 then 0 else 1)
     \<and> total_pnl (bot (fst (handle_position_closed d w))) = total_pnl (bot w) + pnl p
     \<and> positions (bot (fst (handle_position_closed d w))) =
         (positions (bot w))(pos_symbol p := None)
     \<and> total_trades (bot (fst (handle_position_closed d w))) = total_trades (bot w)"
  using assms
  by (auto simp add: handle_position_closed_def Let_def map_bot_def log_info_def domIff)

theorem position_closed_statistics_witness:
  "winning_trades (bot (fst (handle_position_closed (closing winner) world0))) = 1
   \<and> losing_trades (bot (fst (handle_position_closed (closing winner) world0))) = 0
   \<and> total_pnl (bot (fst (handle_position_closed (closing winner) world0))) = 50
   \<and> winning_trades (bot (fst (handle_position_closed (closing loser) world0))) = 0
   \<and> losing_trades (bot (fst (handle_position_closed (closing loser) world0))) = 1
   \<and> total_pnl (bot (fst (handle_position_closed (closing loser) world0))) = - 20"
  using position_closed_statistics [of "closing winner" winner world0]
    position_closed_statistics [of "closing loser" loser world0]
  by (simp add: closing_def winner_def loser_def world0_def Bot_init_def)

section \<open>Initialization\<close>

lemma initialize_success_flag:
  assumes "initialize env w = (w1, None)"
  shows "initialized (bot w1)"
proof (cases "initialized (bot w)")
  case True
  then show ?thesis using assms by (simp add: initialize_def)
next
  case False
  obtain w2 r where t: "initialize_try env w = (w2, r)" by (cases "initialize_try env w")
  have "r = None \<and> w2 = w1"
    using assms False t by (cases r) (simp_all add: initialize_def split: if_splits)
  then have "initialize_try env w = (w1, None)" using t by simp
  then show ?thesis
    by (auto simp add: initialize_try_def map_bot_def log_info_def Let_def
        split: prod.splits option.splits)
qed

text \<open>
  C5.  After a call of \<open>initialize\<close> that succeeded, a second call changes nothing: it
  returns the same bot and the same trace (no hook invoked, nothing logged) and raises
  nothing, so two calls in a row have the effect of one.
\<close>

theorem initialize_idempotent:
  assumes "initialize env w = (w1, None)"
  shows "initialize env w1 = (w1, None)
     \<and> (case initialize env w of (w', r) \<Rightarrow> initialize env w') = initialize env w"
proof -
  have "initialized (bot w1)" using assms by (rule initialize_success_flag)
  then have "initialize env w1 = (w1, None)" by (simp add: initialize_def)
  then show ?thesis using assms by simp
qed

lemma initialize_example:
  "initialize example_env world0 =
     (\<lparr>bot = Bot_init\<lparr>name := ''X'', pairs := [''BTC/USDT''], timeframe := ''1h'',
                        initialized := True\<rparr>,
       trace = [Invoked Setup None, Log_info ''Bot X v1.0.0 initialized'']\<rparr>, None)"
  by (simp add: initialize_def initialize_try_def invoke_def example_env_def example_setup_def
      world0_def Bot_init_def validate_config_def map_bot_def log_info_def)

theorem initialize_idempotent_witness:
  "initialize example_env (fst (initialize example_env world0)) = initialize example_env world0
   \<and> invocations Setup (trace (fst (initialize example_env (fst (initialize example_env world0))))) = 1"
  using initialize_idempotent [OF initialize_example]
  by (simp add: initialize_example invocations_def)

lemma initialize_try_setup:
  assumes "setup_hook env (bot w) = (b1, r)"
  shows "initialize_try env w =
     (case r of
        Some e \<Rightarrow> (\<lparr>bot = b1, trace = trace w @ [Invoked Setup r]\<rparr>, Some e)
      | None \<Rightarrow>
          (case validate_config b1 of
             Some e \<Rightarrow> (\<lparr>bot = b1, trace = trace w @ [Invoked Setup r]\<rparr>, Some e)
           | None \<Rightarrow>
               (\<lparr>bot = b1\<lparr>initialized := True\<rparr>,
                 trace = trace w @ [Invoked Setup r,
                   Log_info (''Bot '' @ name b1 @ '' v'' @ version b1 @ '' initialized'')]\<rparr>,
                None)))"
  using assms
  by (simp add: initialize_try_def invoke_def map_bot_def log_info_def Let_def
      split: option.splits)

lemma validate_config_cases:
  "validate_config b =
     (if name b = [] \<or> pairs b = [] \<or> timeframe b = []
      then Some (Exn ConfigurationError
                  (if name b = [] then ''Bot name is required''
                   else if pairs b = [] then ''At least one trading pair is required''
                   else ''Timeframe is required''))
      else None)"
  by (simp add: validate_config_def)

lemma invocations_append:
  "invocations h (xs @ ys) = invocations h xs + invocations h ys"
  by (simp add: invocations_def)

text \<open>
  C3 (amended).  On a bot that is not initialized, \<open>initialize\<close> invokes the setup hook
  once.  When the hook raises an instance of \<^verbatim>\<open>Exception\<close>, or returns and the name, the
  pairs or the timeframe is empty, \<open>initialize\<close> raises a \<^verbatim>\<open>ConfigurationError\<close> and does
  not set the flag; an exception of the hook outside \<^verbatim>\<open>Exception\<close> leaves \<open>initialize\<close>
  as it is, the flag not set either; otherwise \<open>initialize\<close> succeeds and sets the flag.
  (The hook is taken not to write the private flag itself.)
\<close>

theorem initialize_outcome:
  assumes "\<not> initialized (bot w)"
    and "setup_hook env (bot w) = (b1, r)"
    and "\<not> initialized b1"
  shows "(case r of
          Some e \<Rightarrow>
            snd (initialize env w) =
              Some (if isinstance_Exception e
                    then Exn ConfigurationError (''Bot initialization failed: '' @ exc_str e)
                    else e)
            \<and> bot (fst (initialize env w)) = b1
            \<and> \<not> initialized (bot (fst (initialize env w)))
        | None \<Rightarrow>
            if name b1 = [] \<or> pairs b1 = [] \<or> timeframe b1 = []
            then (\<exists>m. snd (initialize env w) = Some (Exn ConfigurationError m))
                 \<and> bot (fst (initialize env w)) = b1
                 \<and> \<not> initialized (bot (fst (initialize env w)))
            else snd (initialize env w) = None
                 \<and> bot (fst (initialize env w)) = b1\<lparr>initialized := True\<rparr>
                 \<and> initialized (bot (fst (initialize env w))))
     \<and> invocations Setup (trace (fst (initialize env w))) = invocations Setup (trace w) + 1"
proof (cases r)
  case (Some e)
  then have "initialize_try env w = (\<lparr>bot = b1, trace = trace w @ [Invoked Setup r]\<rparr>, Some e)"
    using initialize_try_setup [OF assms(2)] by simp
  then show ?thesis
    using assms(1,3) Some
    by (simp add: initialize_def log_error_def invocations_append)
       (simp add: invocations_def)
next
  case None
  note r = None
  show ?thesis
  proof (cases "name b1 = [] \<or> pairs b1 = [] \<or> timeframe b1 = []")
    case True
    then obtain m where m: "validate_config b1 = Some (Exn ConfigurationError m)"
      by (simp add: validate_config_cases)
    then have "initialize_try env w =
        (\<lparr>bot = b1, trace = trace w @ [Invoked Setup r]\<rparr>, Some (Exn ConfigurationError m))"
      using initialize_try_setup [OF assms(2)] r by simp
    then show ?thesis
      using assms(1,3) r True
      by (simp add: initialize_def log_error_def invocations_append isinstance_Exception_def)
         (simp add: invocations_def)
  next
    case False
    then have "validate_config b1 = None" by (simp add: validate_config_cases)
    then have "initialize_try env w =
        (\<lparr>bot = b1\<lparr>initialized := True\<rparr>,
          trace = trace w @ [Invoked Setup r,
            Log_info (''Bot '' @ name b1 @ '' v'' @ version b1 @ '' initialized'')]\<rparr>, None)"
      using initialize_try_setup [OF assms(2)] r by simp
    then show ?thesis
      using assms(1) r False
      by (simp add: initialize_def invocations_append) (simp add: invocations_def)
  qed
qed

theorem initialize_outcome_witness:
  "(\<exists>m. snd (initialize (example_env\<lparr>setup_hook := idle\<rparr>) world0) = Some (Exn ConfigurationError m))
   \<and> \<not> initialized (bot (fst (initialize (example_env\<lparr>setup_hook := idle\<rparr>) world0)))
   \<and> snd (initialize example_env world0) = None
   \<and> initialized (bot (fst (initialize example_env world0)))
   \<and> snd (initialize (example_env\<lparr>setup_hook := failing (Exn ValueError ''no key'')\<rparr>) world0) =
       Some (Exn ConfigurationError ''Bot initialization failed: no key'')"
  using initialize_outcome [of world0 "example_env\<lparr>setup_hook := idle\<rparr>" Bot_init None]
    initialize_outcome [of world0 example_env
      "Bot_init\<lparr>name := ''X'', pairs := [''BTC/USDT''], timeframe := ''1h''\<rparr>" None]
    initialize_outcome [of world0 "example_env\<lparr>setup_hook := failing (Exn ValueError ''no key'')\<rparr>"
      Bot_init "Some (Exn ValueError ''no key'')"]
  by (simp add: world0_def Bot_init_def example_env_def example_setup_def idle_def failing_def
      isinstance_Exception_def)

text \<open>
  The claim as it was written fails when the setup hook ends the program:
  \<^verbatim>\<open>SystemExit\<close> is no \<^verbatim>\<open>Exception\<close>, so \<open>initialize\<close> lets it pass unwrapped.
\<close>

theorem initialize_passes_SystemExit:
  "snd (initialize (example_env\<lparr>setup_hook := failing (Exn SystemExit ''exit'')\<rparr>) world0) =
     Some (Exn SystemExit ''exit'')"
  by (simp add: initialize_def initialize_try_def invoke_def example_env_def failing_def
      world0_def Bot_init_def isinstance_Exception_def)

section \<open>Decoding a signal\<close>

lemma map_of_dict_set: "map_of (dict_set d k v) = (map_of d)(k \<mapsto> v)"
  by (induction d k v rule: dict_set.induct) (auto simp add: fun_eq_iff)

lemma SignalType_call_value: "SignalType_call (PStr (SignalType_value t)) = Inr t"
  by (cases t) (simp_all add: SignalType_call_def)

lemma SignalType_call_PStr:
  "SignalType_call (PStr s) = Inr t \<Longrightarrow> s = SignalType_value t"
  by (auto simp add: SignalType_call_def split: if_splits)

lemma SignalType_call_Inl: "SignalType_call v = Inl e \<Longrightarrow> \<exists>m. e = Exn ValueError m"
  by (auto simp add: SignalType_call_def split: pyval.splits if_splits)

lemma SignalType_call_unknown:
  assumes "\<forall>t. v \<noteq> PEnum t" and "\<forall>t. v \<noteq> PStr (SignalType_value t)"
  shows "\<exists>m. SignalType_call v = Inl (Exn ValueError m)"
proof (cases "SignalType_call v")
  case (Inl e)
  then show ?thesis using SignalType_call_Inl by blast
next
  case (Inr t)
  show ?thesis
  proof (cases v)
    case (PStr s)
    then have "s = SignalType_value t" using Inr SignalType_call_PStr by simp
    then show ?thesis using assms(2) PStr by blast
  qed (use Inr assms in \<open>simp_all add: SignalType_call_def\<close>)
qed

lemma Signal_kwargs_type:
  assumes "Signal_kwargs now kw = Built s" and "map_of kw ''type'' = Some (PEnum t)"
  shows "type s = t"
  using assms
  by (auto simp add: Signal_kwargs_def kw_enum_def Signal_init_def Let_def
      split: if_splits pyval.splits option.splits sum.splits)

lemma from_dict_type:
  assumes "from_dict now d = Built s" and "map_of d ''type'' = Some v" and "SignalType_call v = Inr t"
  shows "type s = t"
  using assms
  by (auto simp add: from_dict_def Let_def map_of_dict_set
      split: option.splits sum.splits if_splits pyval.splits
      intro: Signal_kwargs_type)

lemma from_dict_minimal:
  "from_dict now [(''type'', PStr (SignalType_value t)), (''symbol'', PStr sy)] =
     Built \<lparr>type = t, symbol = sy, confidence = 1, price = None, quantity = None,
            stop_loss = None, take_profit = None, metadata = [], timestamp = now,
            source = ''unknown''\<rparr>"
  by (simp add: from_dict_def SignalType_call_value Signal_kwargs_def Signal_fields_def
      kw_enum_def kw_str_def kw_opt_float_def kw_opt_dict_def kw_opt_time_def Signal_init_def)

text \<open>
  C8 (amended).  \<open>from_dict\<close> raises on a dictionary without a type entry
  (\<^verbatim>\<open>KeyError\<close>) and on one whose type entry is neither one of the six tags nor a
  \<open>SignalType\<close> member (\<^verbatim>\<open>ValueError\<close>).  Each of the six tags decodes to its member, a
  member decodes to itself: a signal built from such a dictionary has that type, and the
  dictionary of a tag and a symbol alone is decoded to a signal.
\<close>

theorem from_dict_type_decoding:
  "(map_of d ''type'' = None \<longrightarrow> (\<exists>m. from_dict now d = Raised (Exn KeyError m)))
   \<and> (\<forall>v. map_of d ''type'' = Some v \<and> (\<forall>t. v \<noteq> PEnum t) \<and> (\<forall>t. v \<noteq> PStr (SignalType_value t))
          \<longrightarrow> (\<exists>m. from_dict now d = Raised (Exn ValueError m)))
   \<and> (\<forall>t s. (map_of d ''type'' = Some (PStr (SignalType_value t)) \<or> map_of d ''type'' = Some (PEnum t))
          \<and> from_dict now d = Built s \<longrightarrow> type s = t)
   \<and> (\<forall>t. SignalType_call (PStr (SignalType_value t)) = Inr t)
   \<and> (\<forall>t sy. \<exists>s. from_dict now [(''type'', PStr (SignalType_value t)), (''symbol'', PStr sy)] =
          Built s \<and> type s = t)"
proof (intro conjI allI impI)
  assume "map_of d ''type'' = None"
  then show "\<exists>m. from_dict now d = Raised (Exn KeyError m)"
    by (simp add: from_dict_def)
next
  fix v
  assume a: "map_of d ''type'' = Some v \<and> (\<forall>t. v \<noteq> PEnum t) \<and> (\<forall>t. v \<noteq> PStr (SignalType_value t))"
  then obtain m where "SignalType_call v = Inl (Exn ValueError m)"
    using SignalType_call_unknown by blast
  then show "\<exists>m. from_dict now d = Raised (Exn ValueError m)"
    using a by (simp add: from_dict_def)
next
  fix t s
  assume a: "(map_of d ''type'' = Some (PStr (SignalType_value t)) \<or> map_of d ''type'' = Some (PEnum t))
      \<and> from_dict now d = Built s"
  have "SignalType_call (PEnum t) = Inr t" by (simp add: SignalType_call_def)
  then show "type s = t"
    using a from_dict_type SignalType_call_value by blast
next
  fix t
  show "SignalType_call (PStr (SignalType_value t)) = Inr t"
    by (rule SignalType_call_value)
next
  fix t sy
  show "\<exists>s. from_dict now [(''type'', PStr (SignalType_value t)), (''symbol'', PStr sy)] =
          Built s \<and> type s = t"
    by (simp add: from_dict_minimal)
qed

theorem from_dict_type_decoding_witness:
  "(\<exists>m. from_dict t0 [(''type'', PStr ''long''), (''symbol'', PStr ''BTC/USDT'')] =
        Raised (Exn ValueError m))
   \<and> (\<exists>m. from_dict t0 [(''symbol'', PStr ''BTC/USDT'')] = Raised (Exn KeyError m))
   \<and> (\<exists>s. from_dict t0 [(''type'', PStr ''stop_loss''), (''symbol'', PStr ''BTC/USDT'')] = Built s
          \<and> type s = STOP_LOSS)"
proof -
  let ?d = "[(''type'', PStr ''long''), (''symbol'', PStr ''BTC/USDT'')]"
  have known: "\<forall>t. PStr ''long'' \<noteq> PStr (SignalType_value t)"
  proof
    fix t show "PStr ''long'' \<noteq> PStr (SignalType_value t)" by (cases t) simp_all
  qed
  have "map_of ?d ''type'' = Some (PStr ''long'') \<and> (\<forall>t. PStr ''long'' \<noteq> PEnum t)
      \<and> (\<forall>t. PStr ''long'' \<noteq> PStr (SignalType_value t))"
    using known by simp
  then have 1: "\<exists>m. from_dict t0 ?d = Raised (Exn ValueError m)"
    using from_dict_type_decoding [of ?d t0] by blast
  have 2: "\<exists>m. from_dict t0 [(''symbol'', PStr ''BTC/USDT'')] = Raised (Exn KeyError m)"
    using from_dict_type_decoding [of "[(''symbol'', PStr ''BTC/USDT'')]" t0] by simp
  have "\<exists>s. from_dict t0 [(''type'', PStr (SignalType_value STOP_LOSS)), (''symbol'', PStr ''BTC/USDT'')] =
          Built s \<and> type s = STOP_LOSS"
    using from_dict_type_decoding [of "[]" t0] by blast
  then have 3: "\<exists>s. from_dict t0 [(''type'', PStr ''stop_loss''), (''symbol'', PStr ''BTC/USDT'')] = Built s
          \<and> type s = STOP_LOSS"
    by simp
  show ?thesis using 1 2 3 by blast
qed

text \<open>
  The claim as it was written fails on a dictionary whose type entry is the member
  \<^verbatim>\<open>SignalType.BUY\<close> itself: that is none of the six tags, and \<open>from_dict\<close> accepts it.
\<close>

theorem from_dict_accepts_enum_member:
  "from_dict t0 [(''type'', PEnum BUY), (''symbol'', PStr ''BTC/USDT'')] =
     Built \<lparr>type = BUY, symbol = ''BTC/USDT'', confidence = 1, price = None, quantity = None,
            stop_loss = None, take_profit = None, metadata = [], timestamp = t0,
            source = ''unknown''\<rparr>"
  by (simp add: from_dict_def SignalType_call_def Signal_kwargs_def Signal_fields_def
        kw_enum_def kw_str_def kw_opt_float_def kw_opt_dict_def kw_opt_time_def Signal_init_def)

section \<open>The timestamp text\<close>




















section \<open>The main loop and the cleanup\<close>


























end
